theory Spec2Isabelle
  imports Main
begin

section \<open>JavaScript values\<close>

text \<open>
  The server class of \<^verbatim>\<open>src/server/index.ts\<close> works on untyped data: the configuration
  document, the plugin manifests (\<^verbatim>\<open>let manifest: any\<close>) and the command configuration.
  They are modelled as JSON-like values. Numbers are restricted to integers; an object is the
  list of its own properties, looked up from the front.
\<close>

datatype jsval =
    JUndefined
  | JNull
  | JBool bool
  | JNum int
  | JStr string
  | JArr "jsval list"
  | JObj "(string \<times> jsval) list"

text \<open>What \<^verbatim>\<open>if (v)\<close>, \<^verbatim>\<open>v && w\<close> and \<^verbatim>\<open>v ? a : b\<close> test.\<close>

fun truthy :: "jsval \<Rightarrow> bool" where
  "truthy JUndefined = False"
| "truthy JNull = False"
| "truthy (JBool b) = b"
| "truthy (JNum n) = (n \<noteq> 0)"
| "truthy (JStr s) = (s \<noteq> [])"
| "truthy (JArr xs) = True"
| "truthy (JObj kvs) = True"

text \<open>The \<^verbatim>\<open>typeof\<close> operator.\<close>

fun js_typeof :: "jsval \<Rightarrow> string" where
  "js_typeof JUndefined = ''undefined''"
| "js_typeof JNull = ''object''"
| "js_typeof (JBool b) = ''boolean''"
| "js_typeof (JNum n) = ''number''"
| "js_typeof (JStr s) = ''string''"
| "js_typeof (JArr xs) = ''object''"
| "js_typeof (JObj kvs) = ''object''"

text \<open>
  Reading a property \<^verbatim>\<open>v[k]\<close> of a value that is neither \<^verbatim>\<open>null\<close> nor
  \<^verbatim>\<open>undefined\<close> (every read of the source is guarded by a truthiness test of
  \<^verbatim>\<open>v\<close>). The keys read from manifests and from the configuration are
  \<^verbatim>\<open>active\<close>, \<^verbatim>\<open>plugins\<close>, \<^verbatim>\<open>server\<close>, \<^verbatim>\<open>client\<close> and
  \<^verbatim>\<open>nui\<close>: none of them is a built-in member of an array, a string, a number or a
  boolean, so such a read yields \<^verbatim>\<open>undefined\<close> there.
\<close>

fun js_get :: "jsval \<Rightarrow> string \<Rightarrow> jsval" where
  "js_get (JObj kvs) k = (case map_of kvs k of Some v \<Rightarrow> v | None \<Rightarrow> JUndefined)"
| "js_get v k = JUndefined"

text \<open>
  The property names every object literal \<^verbatim>\<open>{}\<close> inherits from
  \<^verbatim>\<open>Object.prototype\<close>. A read \<^verbatim>\<open>obj[k]\<close> of such a name finds the inherited
  member (a function, or the prototype itself for \<^verbatim>\<open>__proto__\<close>), which is truthy.
\<close>

definition Object_prototype :: "string list" where
  "Object_prototype =
     [''constructor'', ''hasOwnProperty'', ''isPrototypeOf'', ''propertyIsEnumerable'',
      ''toLocaleString'', ''toString'', ''valueOf'', ''__proto__'',
      ''__defineGetter__'', ''__defineSetter__'', ''__lookupGetter__'', ''__lookupSetter__'']"

text \<open>Decimal rendering of numbers, as template literals and \<^verbatim>\<open>String(v)\<close> do it.\<close>

definition digit_char :: "nat \<Rightarrow> char" where
  "digit_char d = char_of (48 + d)"

fun show_nat :: "nat \<Rightarrow> string" where
  "show_nat n = (if n < 10 then [digit_char n] else show_nat (n div 10) @ [digit_char (n mod 10)])"

declare show_nat.simps [simp del]

definition show_int :: "int \<Rightarrow> string" where
  "show_int i = (if i < 0 then CHR ''-'' # show_nat (nat (- i)) else show_nat (nat i))"

fun join_with :: "string \<Rightarrow> string list \<Rightarrow> string" where
  "join_with sep [] = []"
| "join_with sep [x] = x"
| "join_with sep (x # y # ys) = x @ sep @ join_with sep (y # ys)"

text \<open>
  \<^verbatim>\<open>String(v)\<close>, used where a value is spliced into a template literal. Inside an array,
  \<^verbatim>\<open>null\<close> and \<^verbatim>\<open>undefined\<close> render as the empty string.
\<close>

fun js_to_string :: "jsval \<Rightarrow> string" where
  "js_to_string JUndefined = ''undefined''"
| "js_to_string JNull = ''null''"
| "js_to_string (JBool b) = (if b then ''true'' else ''false'')"
| "js_to_string (JNum n) = show_int n"
| "js_to_string (JStr s) = s"
| "js_to_string (JArr xs) =
     join_with '','' (map (\<lambda>x. if x = JUndefined \<or> x = JNull then [] else js_to_string x) xs)"
| "js_to_string (JObj kvs) = ''[object Object]''"

text \<open>A thrown JavaScript error, with its message.\<close>

datatype js_error = Error string | TypeError string

text \<open>How a call ends: it returns a value or throws.\<close>

datatype 'a result = Returned 'a | Threw js_error

section \<open>Observable effects\<close>

text \<open>
  Everything the server does to the outside world, in the order it does it. Each operation of
  the model returns the list of effects it caused.

  Modelled from the spec: \<^verbatim>\<open>triggerServerEvent\<close> is inherited from the \<^verbatim>\<open>Events\<close>
  class and \<^verbatim>\<open>emitNet\<close> is a native of the host; neither is part of the source at hand.
  Following the Event Bus of the spec (a publish is a dispatch to the subscribers of an event
  name) a call is recorded as the effect of publishing that event.
\<close>

datatype effect =
    ConsoleLog string
  | ConsoleLogList "string list"
  | Logger string
  | TriggerServerEvent string
  | EmitNet string int string jsval
  | Require string

section \<open>Configuration and storage driver selection\<close>

text \<open>
  The part of \<^verbatim>\<open>natuna.config.js\<close> the class reads: \<^verbatim>\<open>config.core.db\<close> and the
  \<^verbatim>\<open>config.plugins\<close> object (plugin name to per-surface configuration).
\<close>

record natuna_config =
  core_db :: jsval
  config_plugins :: "(string \<times> jsval) list"

text \<open>
  Modelled from the spec: the driver classes \<^verbatim>\<open>Cassandra\<close> and \<^verbatim>\<open>MySQL\<close> live in
  \<^verbatim>\<open>@server/database\<close>, outside the source at hand; a driver instance is represented by
  its class and constructor arguments. \<^verbatim>\<open>mysql.createConnection(c)\<close> is represented by
  its argument.
\<close>

datatype driver = Cassandra | MySQL jsval string

text \<open>
  \<^verbatim>\<open>db = (table) => { switch (typeof config.core.db) { case "cassandra": return new
  Cassandra(); case "mysql": default: return new MySQL(mysql.createConnection(
  this.config.core.db), table); } }\<close>
\<close>

definition db :: "natuna_config \<Rightarrow> string \<Rightarrow> driver" where
  "db cfg table =
     (let t = js_typeof (core_db cfg) in
      if t = ''cassandra'' then Cassandra
      else if t = ''mysql'' then MySQL (core_db cfg) table
      else MySQL (core_db cfg) table)"

section \<open>Command registry\<close>

text \<open>
  Modelled from the spec: \<^verbatim>\<open>CommandWrapper\<close> lives in \<^verbatim>\<open>@server/command\<close>, outside
  the source at hand. An instance is the Command Entry of the spec: the constructor arguments
  \<^verbatim>\<open>(name, handler, config, isClientCommand)\<close>. Handlers are opaque values of type
  \<^typ>\<open>'h\<close>.
\<close>

record 'h CommandWrapper =
  cmd_name :: string
  cmd_handler :: 'h
  cmd_config :: jsval
  cmd_isClientCommand :: bool

text \<open>
  A Plugin Descriptor \<^verbatim>\<open>{ name: string; file?: string; config?: any }\<close>; an optional
  field that is absent is \<open>None\<close>.
\<close>

record descriptor =
  plugin_name :: string
  plugin_file :: "jsval option"
  plugin_config :: "jsval option"

text \<open>The three surfaces \<^verbatim>\<open>_getPlugins\<close> is called with (lines 337, 502 and 503).\<close>

datatype surface = Server | Client | Nui

fun surface_key :: "surface \<Rightarrow> string" where
  "surface_key Server = ''server''"
| "surface_key Client = ''client''"
| "surface_key Nui = ''nui''"

text \<open>
  The mutable fields of the \<^verbatim>\<open>Server\<close> instance: \<^verbatim>\<open>this.commands\<close>,
  \<^verbatim>\<open>this.plugins\<close> (the discovery cache) and \<^verbatim>\<open>this.serverPlugins\<close> (the loaded
  module of each plugin, represented by the path it was required from). Each map holds the own
  properties of the object. Writing \<^verbatim>\<open>this.serverPlugins[plugin.name]\<close> and reading it
  back gives the module written, for every folder name but \<^verbatim>\<open>__proto__\<close>, which the
  model does not treat apart.
\<close>

record 'h server =
  commands :: "string \<rightharpoonup> 'h CommandWrapper"
  plugins :: "surface \<rightharpoonup> descriptor list"
  serverPlugins :: "string \<rightharpoonup> string"

text \<open>The state the constructor leaves: three empty objects.\<close>

definition new_server :: "'h server" where
  "new_server = \<lparr> commands = Map.empty, plugins = Map.empty, serverPlugins = Map.empty \<rparr>"

text \<open>
  The test \<^verbatim>\<open>this.commands[name]\<close>: truthy when the name is an own property (a
  \<^verbatim>\<open>CommandWrapper\<close> object) or is inherited from \<^verbatim>\<open>Object.prototype\<close>.
\<close>

definition command_lookup_truthy :: "'h server \<Rightarrow> string \<Rightarrow> bool" where
  "command_lookup_truthy s n = (commands s n \<noteq> None \<or> n \<in> set Object_prototype)"

definition duplicate_message :: "string \<Rightarrow> string" where
  "duplicate_message n = ''Command \"'' @ n @ ''\" had already been registered before!''"

text \<open>\<^verbatim>\<open>emitNet("natuna:client:setCommandDescription", -1, name, config)\<close>\<close>

definition setCommandDescription :: "string \<Rightarrow> jsval \<Rightarrow> effect" where
  "setCommandDescription n cfg = EmitNet ''natuna:client:setCommandDescription'' (- 1) n cfg"

text \<open>\<^verbatim>\<open>new CommandWrapper(this, name, handler, config, isClientCommand)\<close>\<close>

definition new_CommandWrapper :: "string \<Rightarrow> 'h \<Rightarrow> jsval \<Rightarrow> bool \<Rightarrow> 'h CommandWrapper" where
  "new_CommandWrapper n handler cfg isClientCommand =
     \<lparr> cmd_name = n, cmd_handler = handler, cmd_config = cfg,
       cmd_isClientCommand = isClientCommand \<rparr>"

text \<open>
  The closure \<^verbatim>\<open>addCommand\<close> of \<^verbatim>\<open>registerCommand\<close> (lines 187 to 196); the
  first three arguments are the variables it captures.
\<close>

definition addCommand ::
  "'h \<Rightarrow> jsval \<Rightarrow> bool \<Rightarrow> string \<Rightarrow> 'h server \<Rightarrow> unit result \<times> 'h server \<times> effect list" where
  "addCommand handler cfg isClientCommand n s =
     (if command_lookup_truthy s n \<and> \<not> isClientCommand then
        (Threw (Error (duplicate_message n)), s, [])
      else if command_lookup_truthy s n \<and> isClientCommand then
        (Returned (), s, [setCommandDescription n cfg])
      else
        (Returned (),
         s\<lparr>commands := (commands s)(n \<mapsto> new_CommandWrapper n handler cfg isClientCommand)\<rparr>,
         [setCommandDescription n cfg]))"

text \<open>The loop \<^verbatim>\<open>for (const alias of name) addCommand(alias)\<close>: a throw ends it.\<close>

fun addCommands ::
  "'h \<Rightarrow> jsval \<Rightarrow> bool \<Rightarrow> string list \<Rightarrow> 'h server \<Rightarrow> unit result \<times> 'h server \<times> effect list" where
  "addCommands handler cfg isClientCommand [] s = (Returned (), s, [])"
| "addCommands handler cfg isClientCommand (alias # rest) s =
     (case addCommand handler cfg isClientCommand alias s of
        (Threw e, s', es) \<Rightarrow> (Threw e, s', es)
      | (Returned u, s', es) \<Rightarrow>
          (case addCommands handler cfg isClientCommand rest s' of
             (r, s'', es') \<Rightarrow> (r, s'', es @ es')))"

text \<open>The first argument of \<^verbatim>\<open>registerCommand\<close>: \<^verbatim>\<open>string | Array<string>\<close>.\<close>

datatype name_arg = Name string | Aliases "string list"

text \<open>
  \<^verbatim>\<open>registerCommand = (name, handler, config = {}, isClientCommand = false) => ...\<close>;
  a \<^verbatim>\<open>config\<close> that is \<^verbatim>\<open>undefined\<close> takes the default \<^verbatim>\<open>{}\<close>.
\<close>

definition default_config :: "jsval \<Rightarrow> jsval" where
  "default_config cfg = (if cfg = JUndefined then JObj [] else cfg)"

definition registerCommand ::
  "name_arg \<Rightarrow> 'h \<Rightarrow> jsval \<Rightarrow> bool \<Rightarrow> 'h server \<Rightarrow> bool result \<times> 'h server \<times> effect list" where
  "registerCommand nm handler cfg isClientCommand s =
     (let cfg' = default_config cfg;
          (r, s', es) =
            (case nm of
               Aliases as \<Rightarrow> addCommands handler cfg' isClientCommand as s
             | Name n \<Rightarrow> addCommand handler cfg' isClientCommand n s)
      in case r of
           Threw e \<Rightarrow> (Threw e, s', es)
         | Returned u \<Rightarrow> (Returned True, s', es))"

text \<open>
  The command table with one fresh entry per name of a list, entered from left to right:
  what \<^verbatim>\<open>this.commands[name] = new CommandWrapper(...)\<close> leaves after each of them.
\<close>

definition with_command ::
  "'h \<Rightarrow> jsval \<Rightarrow> bool \<Rightarrow> (string \<rightharpoonup> 'h CommandWrapper) \<Rightarrow> string \<Rightarrow> (string \<rightharpoonup> 'h CommandWrapper)" where
  "with_command handler cfg isClientCommand table n =
     table(n \<mapsto> new_CommandWrapper n handler cfg isClientCommand)"

definition with_commands ::
  "'h \<Rightarrow> jsval \<Rightarrow> bool \<Rightarrow> (string \<rightharpoonup> 'h CommandWrapper) \<Rightarrow> string list \<Rightarrow> (string \<rightharpoonup> 'h CommandWrapper)" where
  "with_commands handler cfg isClientCommand table ns =
     foldl (with_command handler cfg isClientCommand) table ns"

section \<open>The host environment\<close>

text \<open>
  A plugin's entry handler \<^verbatim>\<open>_handler(this, plugin.config)\<close>: it receives the
  configuration and the server instance, may change the instance and cause effects, and
  returns or throws. Only its synchronous part is modelled (the call is not awaited).
\<close>

type_synonym 'h plugin_handler = "jsval \<Rightarrow> 'h server \<Rightarrow> unit result \<times> 'h server \<times> effect list"

text \<open>
  What \<^verbatim>\<open>require(path)\<close> of a plugin module gives: it throws, or yields the module's
  exports with or without a \<^verbatim>\<open>_handler\<close> member.
\<close>

datatype 'h required = RequireThrows js_error | Module "'h plugin_handler option"

text \<open>
  What the class reads from outside itself: the host's natives, the file system, the module
  loader, the banner library and the remote package document.
  \<^item> \<open>current_resource_name\<close>: \<^verbatim>\<open>GetCurrentResourceName()\<close>;
  \<^item> \<open>resource_path\<close>: \<^verbatim>\<open>GetResourcePath(GetCurrentResourceName())\<close>;
  \<^item> \<open>glob pattern cwd\<close>: \<^verbatim>\<open>await glob(pattern, { cwd })\<close>, which may reject;
  \<^item> \<open>is_directory p\<close>: \<^verbatim>\<open>fs.lstatSync(p).isDirectory()\<close>, which may throw;
  \<^item> \<open>readdir p\<close>: \<^verbatim>\<open>await util.promisify(fs.readdir)(p)\<close>;
  \<^item> \<open>require_manifest p\<close>: \<^verbatim>\<open>require(p).default()\<close>, \<open>None\<close> when the load or
    the call throws;
  \<^item> \<open>require_json p\<close>: \<^verbatim>\<open>require(p)\<close> of a JSON document, \<open>None\<close> when it throws;
  \<^item> \<open>require_module p\<close>: \<^verbatim>\<open>require(p)\<close> of a plugin's server module;
  \<^item> \<open>figlet_text\<close>: the \<^verbatim>\<open>result\<close> the banner callback receives, \<open>None\<close> when it
    is \<^verbatim>\<open>undefined\<close>;
  \<^item> \<open>pkg_version\<close>: \<^verbatim>\<open>pkg.version\<close> of the local \<^verbatim>\<open>package.json\<close>;
  \<^item> \<open>fetch_remote_package\<close>: the remote \<^verbatim>\<open>package.json\<close> after
    \<^verbatim>\<open>fetch\<close>, \<^verbatim>\<open>res.text()\<close> and \<^verbatim>\<open>JSON.parse\<close>, \<open>None\<close> when one of
    them fails.
\<close>

record 'h host =
  current_resource_name :: string
  resource_path :: string
  glob :: "string \<Rightarrow> string \<Rightarrow> string list result"
  is_directory :: "string \<Rightarrow> bool result"
  readdir :: "string \<Rightarrow> string list result"
  require_manifest :: "string \<Rightarrow> jsval option"
  require_json :: "string \<Rightarrow> jsval option"
  require_module :: "string \<Rightarrow> 'h required"
  figlet_text :: "string option"
  pkg_version :: string
  fetch_remote_package :: "jsval option"

text \<open>
  \<^verbatim>\<open>path.join\<close> on path components that are plain names (no \<^verbatim>\<open>.\<close> or \<^verbatim>\<open>..\<close>
  segment to normalise).
\<close>

definition path_join :: "string list \<Rightarrow> string" where
  "path_join parts = join_with ''/'' parts"

section \<open>Plugin Manifest Discovery\<close>

text \<open>
  The first part of \<^verbatim>\<open>_getPlugins\<close> (lines 239 to 268), run on every call before the
  cache is looked at: it walks the plugin folders and prints the TypeScript modules of every
  sub-folder; the local table \<^verbatim>\<open>plugins\<close> it fills is never read. No \<^verbatim>\<open>try\<close>
  surrounds it: a \<^verbatim>\<open>glob\<close> that rejects or an \<^verbatim>\<open>lstatSync\<close> that throws ends the
  call, with what was printed so far.
\<close>

text \<open>The loop \<^verbatim>\<open>for (const moduleType of moduleTypeList)\<close> of line 256.\<close>

fun scan_module_types :: "'h host \<Rightarrow> string \<Rightarrow> string list \<Rightarrow> unit result \<times> effect list" where
  "scan_module_types h pluginPath [] = (Returned (), [])"
| "scan_module_types h pluginPath (moduleType # rest) =
     (let moduleTypePath = path_join [resource_path h, pluginPath, moduleType] in
      case is_directory h moduleTypePath of
        Threw e \<Rightarrow> (Threw e, [])
      | Returned isDirectory \<Rightarrow>
          if isDirectory then
            (case glob h ''**/*.ts'' moduleTypePath of
               Threw e \<Rightarrow> (Threw e, [])
             | Returned modules \<Rightarrow>
                 (case scan_module_types h pluginPath rest of
                    (r, es) \<Rightarrow> (r, ConsoleLogList modules # es)))
          else scan_module_types h pluginPath rest)"

text \<open>The loop \<^verbatim>\<open>for (const pluginPath of pluginList)\<close> of line 245.\<close>

fun scan_plugin_paths :: "'h host \<Rightarrow> string list \<Rightarrow> unit result \<times> effect list" where
  "scan_plugin_paths h [] = (Returned (), [])"
| "scan_plugin_paths h (pluginPath # rest) =
     (let pluginFullPath = path_join [resource_path h, pluginPath] in
      case is_directory h pluginFullPath of
        Threw e \<Rightarrow> (Threw e, [])
      | Returned isDirectory \<Rightarrow>
          if isDirectory then
            (case glob h ''*'' pluginFullPath of
               Threw e \<Rightarrow> (Threw e, [])
             | Returned moduleTypeList \<Rightarrow>
                 (case scan_module_types h pluginPath moduleTypeList of
                    (Threw e, es) \<Rightarrow> (Threw e, es)
                  | (Returned u, es) \<Rightarrow>
                      (case scan_plugin_paths h rest of
                         (r, es') \<Rightarrow> (r, es @ es'))))
          else scan_plugin_paths h rest)"

definition scan_plugin_folders :: "'h host \<Rightarrow> unit result \<times> effect list" where
  "scan_plugin_folders h =
     (case glob h ''plugins/*'' (resource_path h) of
        Threw e \<Rightarrow> (Threw e, [])
      | Returned pluginList \<Rightarrow> scan_plugin_paths h pluginList)"

text \<open>
  Lines 287 to 291: the manifest module first, the JSON document when that throws;
  \<open>None\<close> when both throw.
\<close>

definition manifest_ts_path :: "string \<Rightarrow> string" where
  "manifest_ts_path pluginName = ''../../plugins/'' @ pluginName @ ''/manifest.ts''"

definition manifest_json_path :: "string \<Rightarrow> string" where
  "manifest_json_path pluginName = ''../../plugins/'' @ pluginName @ ''/manifest.json''"

definition load_manifest :: "'h host \<Rightarrow> string \<Rightarrow> jsval option \<times> effect list" where
  "load_manifest h pluginName =
     (case require_manifest h (manifest_ts_path pluginName) of
        Some manifest \<Rightarrow> (Some manifest, [Require (manifest_ts_path pluginName)])
      | None \<Rightarrow>
          (require_json h (manifest_json_path pluginName),
           [Require (manifest_ts_path pluginName), Require (manifest_json_path pluginName)]))"

text \<open>
  What \<^verbatim>\<open>for (const x of v)\<close> iterates: the elements of an array, the characters of a
  string; any other value is not iterable and the loop throws a \<^verbatim>\<open>TypeError\<close>
  (\<open>None\<close>).
\<close>

fun js_iterate :: "jsval \<Rightarrow> jsval list option" where
  "js_iterate (JArr xs) = Some xs"
| "js_iterate (JStr s) = Some (map (\<lambda>c. JStr [c]) s)"
| "js_iterate v = None"

text \<open>
  Line 297: \<^verbatim>\<open>this.config.plugins[pluginName] && this.config.plugins[pluginName][type] ?
  this.config.plugins[pluginName][type] : {}\<close>. A plugin name that \<^verbatim>\<open>config.plugins\<close>
  only inherits from \<^verbatim>\<open>Object.prototype\<close> has no property of a surface's name, so it
  ends in \<^verbatim>\<open>{}\<close> like an absent one.
\<close>

definition plugin_surface_config :: "natuna_config \<Rightarrow> string \<Rightarrow> surface \<Rightarrow> jsval" where
  "plugin_surface_config cfg pluginName type =
     (let c = (case map_of (config_plugins cfg) pluginName of Some v \<Rightarrow> v | None \<Rightarrow> JUndefined) in
      if truthy c \<and> truthy (js_get c (surface_key type)) then js_get c (surface_key type)
      else JObj [])"

text \<open>Line 293: \<^verbatim>\<open>manifest && manifest.active\<close>.\<close>

definition manifest_active :: "jsval \<Rightarrow> bool" where
  "manifest_active manifest = (truthy manifest \<and> truthy (js_get manifest ''active''))"

text \<open>
  The body of the loop over the plugin folder (lines 284 to 319) for one
  \<^verbatim>\<open>pluginName\<close>: it takes the list \<^verbatim>\<open>activePluginLists\<close> built so far and returns
  it with this plugin's descriptors pushed. Whatever throws inside is caught by the
  \<^verbatim>\<open>catch\<close> of line 317 and the list is left as it is.
\<close>

definition scan_plugin ::
  "'h host \<Rightarrow> natuna_config \<Rightarrow> surface \<Rightarrow> string \<Rightarrow> descriptor list \<Rightarrow> descriptor list \<times> effect list" where
  "scan_plugin h cfg type pluginName activePluginLists =
     (case load_manifest h pluginName of
        (None, es) \<Rightarrow> (activePluginLists, es)
      | (Some manifest, es) \<Rightarrow>
          if manifest_active manifest then
            (case type of
               Nui \<Rightarrow>
                 (case readdir h (path_join [path_join [resource_path h, ''plugins''], pluginName]) of
                    Threw e \<Rightarrow> (activePluginLists, es)
                  | Returned resourceTypes \<Rightarrow>
                      if ''ui'' \<in> set resourceTypes
                      then (activePluginLists @
                              [\<lparr> plugin_name = pluginName, plugin_file = None, plugin_config = None \<rparr>], es)
                      else (activePluginLists, es))
             | _ \<Rightarrow>
                 (let c = plugin_surface_config cfg pluginName type in
                  if truthy (js_get manifest ''plugins'') \<and>
                     truthy (js_get (js_get manifest ''plugins'') (surface_key type))
                  then
                    (case js_iterate (js_get (js_get manifest ''plugins'') (surface_key type)) of
                       None \<Rightarrow> (activePluginLists, es)
                     | Some files \<Rightarrow>
                         (activePluginLists @
                            map (\<lambda>f. \<lparr> plugin_name = pluginName, plugin_file = Some f,
                                       plugin_config = Some c \<rparr>) files, es))
                  else (activePluginLists, es)))
          else (activePluginLists, es))"

text \<open>The loop \<^verbatim>\<open>for (const pluginName of pluginLists)\<close> of line 283.\<close>

fun scan_plugins ::
  "'h host \<Rightarrow> natuna_config \<Rightarrow> surface \<Rightarrow> string list \<Rightarrow> descriptor list \<Rightarrow> descriptor list \<times> effect list" where
  "scan_plugins h cfg type [] activePluginLists = (activePluginLists, [])"
| "scan_plugins h cfg type (pluginName # rest) activePluginLists =
     (case scan_plugin h cfg type pluginName activePluginLists of
        (activePluginLists', es) \<Rightarrow>
          (case scan_plugins h cfg type rest activePluginLists' of
             (r, es') \<Rightarrow> (r, es @ es')))"

text \<open>
  The inner \<^verbatim>\<open>getPlugins\<close> (lines 270 to 323). The wait loop of line 281 never runs its
  body: \<^verbatim>\<open>this.config\<close> is the imported configuration object since the constructor. A
  rejected \<^verbatim>\<open>readdir\<close> of the plugin folder is outside any \<^verbatim>\<open>try\<close> and propagates.
\<close>

definition getPlugins ::
  "'h host \<Rightarrow> natuna_config \<Rightarrow> surface \<Rightarrow> descriptor list result \<times> effect list" where
  "getPlugins h cfg type =
     (case readdir h (path_join [resource_path h, ''plugins'']) of
        Threw e \<Rightarrow> (Threw e, [])
      | Returned pluginLists \<Rightarrow>
          (case scan_plugins h cfg type pluginLists [] of
             (activePluginLists, es) \<Rightarrow> (Returned activePluginLists, es)))"

text \<open>
  \<^verbatim>\<open>_getPlugins\<close> (lines 230 to 326) is an \<^verbatim>\<open>async\<close> function: other calls run
  while it awaits. It is modelled in the two parts between which the instance can change.

  The first part runs up to the cache test of line 325,
  \<^verbatim>\<open>this.plugins[type] || (this.plugins[type] = await getPlugins(type))\<close>: the folder walk,
  which awaits but neither reads nor writes the instance, then the read of
  \<^verbatim>\<open>this.plugins[type]\<close>. A cached list is an array and so truthy also when it is empty;
  the call then returns it. Otherwise \<^verbatim>\<open>getPlugins(type)\<close> is called and awaited.
\<close>

datatype entered = Rejects js_error | ServedFromCache "descriptor list" | AwaitsScan

definition getPlugins_enter :: "'h host \<Rightarrow> surface \<Rightarrow> 'h server \<Rightarrow> entered \<times> effect list" where
  "getPlugins_enter h type s =
     (case scan_plugin_folders h of
        (Threw e, es) \<Rightarrow> (Rejects e, es)
      | (Returned u, es) \<Rightarrow>
          (case plugins s type of
             Some cached \<Rightarrow> (ServedFromCache cached, es)
           | None \<Rightarrow> (AwaitsScan, es)))"

text \<open>
  The second part runs when the awaited \<^verbatim>\<open>getPlugins(type)\<close> settles: its list is
  assigned to \<^verbatim>\<open>this.plugins[type]\<close>, whatever is stored there by then, and returned; a
  rejection propagates and nothing is stored. The scan reads the environment of that moment.
\<close>

definition getPlugins_resume ::
  "'h host \<Rightarrow> natuna_config \<Rightarrow> surface \<Rightarrow> 'h server \<Rightarrow> descriptor list result \<times> 'h server \<times> effect list" where
  "getPlugins_resume h cfg type s =
     (case getPlugins h cfg type of
        (Threw e, es) \<Rightarrow> (Threw e, s, es)
      | (Returned ds, es) \<Rightarrow> (Returned ds, s\<lparr>plugins := (plugins s)(type \<mapsto> ds)\<rparr>, es))"

text \<open>
  A call of \<^verbatim>\<open>_getPlugins\<close> during which nothing else touches the instance: both parts,
  one after the other.
\<close>

definition getPlugins_cached ::
  "'h host \<Rightarrow> natuna_config \<Rightarrow> surface \<Rightarrow> 'h server \<Rightarrow> descriptor list result \<times> 'h server \<times> effect list" where
  "getPlugins_cached h cfg type s =
     (case getPlugins_enter h type s of
        (Rejects e, es) \<Rightarrow> (Threw e, s, es)
      | (ServedFromCache cached, es) \<Rightarrow> (Returned cached, s, es)
      | (AwaitsScan, es) \<Rightarrow>
          (case getPlugins_resume h cfg type s of
             (r, s', es') \<Rightarrow> (r, s', es @ es')))"

text \<open>Is an effect a module load (\<^verbatim>\<open>require\<close>)?\<close>

fun is_require :: "effect \<Rightarrow> bool" where
  "is_require (Require p) = True"
| "is_require e = False"

section \<open>Plugin Initializer\<close>

text \<open>
  The body of the loop of \<^verbatim>\<open>_initServerPlugins\<close> (lines 341 to 346) for one descriptor,
  with the current value of \<^verbatim>\<open>count\<close>. The module is stored in
  \<^verbatim>\<open>this.serverPlugins\<close> once \<^verbatim>\<open>require\<close> has returned, before its
  \<^verbatim>\<open>_handler\<close> is called; nothing catches a throw.
\<close>

definition module_path :: "descriptor \<Rightarrow> string" where
  "module_path plugin =
     ''../../plugins/'' @ plugin_name plugin @ ''/server/'' @
       js_to_string (case plugin_file plugin of None \<Rightarrow> JUndefined | Some f \<Rightarrow> f)"

definition init_plugin ::
  "'h host \<Rightarrow> descriptor \<Rightarrow> nat \<Rightarrow> 'h server \<Rightarrow> unit result \<times> 'h server \<times> effect list" where
  "init_plugin h plugin count s =
     (let es = [Logger (''Ensuring Plugins: '' @ show_nat count @ ''. '' @ plugin_name plugin),
                Require (module_path plugin)] in
      case require_module h (module_path plugin) of
        RequireThrows e \<Rightarrow> (Threw e, s, es)
      | Module handler \<Rightarrow>
          (let s' = s\<lparr>serverPlugins := (serverPlugins s)(plugin_name plugin \<mapsto> module_path plugin)\<rparr> in
           case handler of
             None \<Rightarrow>
               (Threw (TypeError ''this.serverPlugins[plugin.name]._handler is not a function''),
                s', es)
           | Some f \<Rightarrow>
               (case f (case plugin_config plugin of None \<Rightarrow> JUndefined | Some c \<Rightarrow> c) s' of
                  (r, s'', es') \<Rightarrow> (r, s'', es @ es'))))"

text \<open>The loop \<^verbatim>\<open>for (const plugin of plugins)\<close>, \<^verbatim>\<open>count\<close> going up by one.\<close>

fun init_plugins ::
  "'h host \<Rightarrow> descriptor list \<Rightarrow> nat \<Rightarrow> 'h server \<Rightarrow> unit result \<times> 'h server \<times> effect list" where
  "init_plugins h [] count s = (Returned (), s, [])"
| "init_plugins h (plugin # rest) count s =
     (case init_plugin h plugin count s of
        (Threw e, s', es) \<Rightarrow> (Threw e, s', es)
      | (Returned u, s', es) \<Rightarrow>
          (case init_plugins h rest (count + 1) s' of
             (r, s'', es') \<Rightarrow> (r, s'', es @ es')))"

text \<open>
  \<^verbatim>\<open>_initServerPlugins\<close> (lines 335 to 349). Its discovery call for the server surface
  is taken with nothing else touching the instance while it awaits.
\<close>

definition initServerPlugins ::
  "'h host \<Rightarrow> natuna_config \<Rightarrow> 'h server \<Rightarrow> unit result \<times> 'h server \<times> effect list" where
  "initServerPlugins h cfg s =
     (case getPlugins_cached h cfg Server s of
        (Threw e, s', es) \<Rightarrow> (Threw e, s', Logger ''Intializing Server Plugins'' # es)
      | (Returned ds, s', es) \<Rightarrow>
          (case init_plugins h ds 1 s' of
             (Threw e, s'', es') \<Rightarrow> (Threw e, s'', Logger ''Intializing Server Plugins'' # es @ es')
           | (Returned u, s'', es') \<Rightarrow>
               (Returned (), s'',
                Logger ''Intializing Server Plugins'' # es @ es' @ [Logger ''Server Plugins Ready!''])))"

section \<open>Package version check\<close>

text \<open>
  \<^verbatim>\<open>parseInt(s)\<close> without a radix: leading white space is skipped, then an optional sign,
  then an optional \<^verbatim>\<open>0x\<close>, then the longest run of digits; \<open>None\<close> is
  \<^verbatim>\<open>NaN\<close>. Values are exact integers (the rounding of numbers above \<open>2^53\<close> is not
  modelled).
\<close>

definition is_space :: "char \<Rightarrow> bool" where
  "is_space c = (c \<in> set [CHR '' '', CHR 0x09, CHR 0x0A, CHR 0x0B, CHR 0x0C, CHR 0x0D])"

definition digit_value :: "char \<Rightarrow> nat option" where
  "digit_value c =
     (let n = of_char c :: nat in
      if 48 \<le> n \<and> n \<le> 57 then Some (n - 48)
      else if 97 \<le> n \<and> n \<le> 102 then Some (n - 87)
      else if 65 \<le> n \<and> n \<le> 70 then Some (n - 55)
      else None)"

definition is_digit :: "nat \<Rightarrow> char \<Rightarrow> bool" where
  "is_digit radix c = (case digit_value c of Some d \<Rightarrow> d < radix | None \<Rightarrow> False)"

definition digits_value :: "nat \<Rightarrow> string \<Rightarrow> nat" where
  "digits_value radix ds =
     foldl (\<lambda>acc c. acc * radix + (case digit_value c of Some d \<Rightarrow> d | None \<Rightarrow> 0)) 0 ds"

definition parseInt :: "string \<Rightarrow> int option" where
  "parseInt str =
     (let s1 = dropWhile is_space str;
          (neg, s2) = (case s1 of
                         c # r \<Rightarrow> if c = CHR ''-'' then (True, r)
                                  else if c = CHR ''+'' then (False, r) else (False, s1)
                       | [] \<Rightarrow> (False, s1));
          (radix, s3) = (case s2 of
                           c # x # r \<Rightarrow> if c = CHR ''0'' \<and> (x = CHR ''x'' \<or> x = CHR ''X'')
                                        then (16, r) else (10, s2)
                         | _ \<Rightarrow> (10, s2));
          ds = takeWhile (is_digit radix) s3
      in if ds = [] then None
         else Some ((if neg then - 1 else 1) * int (digits_value radix ds)))"

text \<open>\<^verbatim>\<open>version.replace(/\./g, "")\<close>\<close>

definition remove_dots :: "string \<Rightarrow> string" where
  "remove_dots v = filter (\<lambda>c. c \<noteq> CHR ''.'') v"

text \<open>
  \<^verbatim>\<open>_checkPackageVersion\<close> (lines 358 to 383). The promise it returns is resolved at the
  end of the second \<^verbatim>\<open>then\<close> callback and nowhere else: when the fetch fails, the body is
  not JSON, or \<^verbatim>\<open>rpkg.version\<close> is not a string, it is never settled (\<open>None\<close>).
  Comparisons with \<^verbatim>\<open>NaN\<close> are all false.
\<close>

definition checkPackageVersion :: "'h host \<Rightarrow> unit option \<times> effect list" where
  "checkPackageVersion h =
     (let es = [Logger ''Welcome! Checking your version...'',
                Logger (''You are currently using version '' @ pkg_version h @ ''.'')] in
      case fetch_remote_package h of
        None \<Rightarrow> (None, es)
      | Some rpkg \<Rightarrow>
          (case js_get rpkg ''version'' of
             JStr rversion \<Rightarrow>
               (let currentVersion = parseInt (remove_dots (pkg_version h));
                    remoteVersion = parseInt (remove_dots rversion)
                in case (currentVersion, remoteVersion) of
                     (Some c, Some r) \<Rightarrow>
                       if c < r then
                         (Some (), es @ [Logger (CHR 0x1B #
                            ''[31mYou are not using the latest version of Natuna Framework ('' @
                            rversion @ ''), please update it!'')])
                       else if c > r then
                         (Some (), es @ [Logger (CHR 0x1B #
                            ''[31mYou are not using a valid version version of Natuna Framework!'')])
                       else
                         (Some (), es @ [Logger (CHR 0x1B #
                            ''[32mYou are using a latest version of Natuna Framework!'')])
                   | _ \<Rightarrow> (Some (), es))
           | _ \<Rightarrow> (None, es)))"

section \<open>Server lifecycle\<close>

text \<open>How far an \<^verbatim>\<open>async\<close> event handler gets: its promise is fulfilled, is rejected with
  an error, or is never settled.\<close>

datatype promise = Fulfilled | Rejected js_error | Pending

text \<open>\<^verbatim>\<open>_events.onServerResourceStart\<close> (lines 521 to 546).\<close>

definition onServerResourceStart ::
  "'h host \<Rightarrow> natuna_config \<Rightarrow> string \<Rightarrow> 'h server \<Rightarrow> promise \<times> 'h server \<times> effect list" where
  "onServerResourceStart h cfg resourceName s =
     (if current_resource_name h = resourceName then
        (let es1 = [TriggerServerEvent ''natuna:server:starting'',
                    ConsoleLog (case figlet_text h of None \<Rightarrow> ''undefined'' | Some t \<Rightarrow> t)]
         in case checkPackageVersion h of
              (None, es2) \<Rightarrow> (Pending, s, es1 @ es2)
            | (Some u, es2) \<Rightarrow>
                (let es3 = [TriggerServerEvent ''natuna:server:initializing'',
                            Logger ''Starting Server...'']
                 in case initServerPlugins h cfg s of
                      (Threw e, s', es4) \<Rightarrow> (Rejected e, s', es1 @ es2 @ es3 @ es4)
                    | (Returned v, s', es4) \<Rightarrow>
                        (Fulfilled, s',
                         es1 @ es2 @ es3 @ es4 @
                           [TriggerServerEvent ''natuna:server:ready'', Logger ''Server Ready!''])))
      else (Fulfilled, s, []))"



section \<open>Notions the properties are stated with\<close>

text \<open>The descriptors one plugin folder contributes to a scan, and whether its manifest loads.\<close>

definition plugin_descriptors ::
  "'h host \<Rightarrow> natuna_config \<Rightarrow> surface \<Rightarrow> string \<Rightarrow> descriptor list" where
  "plugin_descriptors h cfg type pluginName = fst (scan_plugin h cfg type pluginName [])"

definition manifest_loads :: "'h host \<Rightarrow> string \<Rightarrow> bool" where
  "manifest_loads h pluginName = (fst (load_manifest h pluginName) \<noteq> None)"



text \<open>
  The life of the instance after start-up as a sequence of events, each in the environment of
  its moment. A discovery call enters (it runs up to its cache test and, on a miss, joins the
  calls that await their scan); the scan of the \<open>k\<close>-th awaiting call settles and the call
  resumes; a command is registered. Calls overlap when one enters while another awaits.
  \<open>returned\<close> collects what the discovery calls return, in the order they complete, and
  \<open>trace\<close> the effects.
\<close>

datatype 'h event =
    DiscoveryCalled "'h host" surface
  | ScanSettles nat "'h host" natuna_config
  | CommandRegistered name_arg 'h jsval bool

record 'h process =
  srv :: "'h server"
  awaiting :: "surface list"
  returned :: "descriptor list result list"
  trace :: "effect list"

fun occur :: "'h event \<Rightarrow> 'h process \<Rightarrow> 'h process" where
  "occur (DiscoveryCalled h type) p =
     (case getPlugins_enter h type (srv p) of
        (Rejects e, es) \<Rightarrow> p\<lparr>returned := returned p @ [Threw e], trace := trace p @ es\<rparr>
      | (ServedFromCache cached, es) \<Rightarrow>
          p\<lparr>returned := returned p @ [Returned cached], trace := trace p @ es\<rparr>
      | (AwaitsScan, es) \<Rightarrow> p\<lparr>awaiting := awaiting p @ [type], trace := trace p @ es\<rparr>)"
| "occur (ScanSettles k h cfg) p =
     (if k < length (awaiting p) then
        (case getPlugins_resume h cfg (awaiting p ! k) (srv p) of
           (r, s', es) \<Rightarrow>
             p\<lparr>srv := s', awaiting := take k (awaiting p) @ drop (Suc k) (awaiting p),
               returned := returned p @ [r], trace := trace p @ es\<rparr>)
      else p)"
| "occur (CommandRegistered nm handler cfg isClientCommand) p =
     (case registerCommand nm handler cfg isClientCommand (srv p) of
        (r, s', es) \<Rightarrow> p\<lparr>srv := s', trace := trace p @ es\<rparr>)"

fun run_events :: "'h event list \<Rightarrow> 'h process \<Rightarrow> 'h process" where
  "run_events [] p = p"
| "run_events (e # es) p = run_events es (occur e p)"

text \<open>The instance with no discovery call under way.\<close>

definition idle_process :: "'h server \<Rightarrow> 'h process" where
  "idle_process s = \<lparr> srv = s, awaiting = [], returned = [], trace = [] \<rparr>"

section \<open>A concrete installation\<close>

text \<open>
  A resource with five entries in its plugin folder, used to run the definitions on concrete
  input: \<open>alpha\<close> (manifest module, server and client files), \<open>beta\<close> and \<open>gamma\<close>
  (JSON manifests, one server file each), \<open>broken\<close> (no manifest that loads) and
  \<open>idle\<close> (a manifest whose \<open>active\<close> flag is false). The entry handler of a plugin
  registers one command named after the plugin. Handlers are named by strings.
\<close>

definition manifest_of :: "bool \<Rightarrow> string list \<Rightarrow> string list \<Rightarrow> jsval" where
  "manifest_of active server_files client_files =
     JObj [(''active'', JBool active),
           (''plugins'', JObj [(''server'', JArr (map JStr server_files)),
                               (''client'', JArr (map JStr client_files))])]"

definition register_own_command :: "string \<Rightarrow> string plugin_handler" where
  "register_own_command n c s =
     (case registerCommand (Name n) (n @ ''_handler'') c False s of
        (Threw e, s', es) \<Rightarrow> (Threw e, s', es)
      | (Returned b, s', es) \<Rightarrow> (Returned (), s', es))"

definition demo_host :: "string host" where
  "demo_host =
     \<lparr> current_resource_name = ''natuna'',
       resource_path = ''/srv/natuna'',
       glob = (\<lambda>pattern cwd.
          if pattern = ''plugins/*'' \<and> cwd = ''/srv/natuna''
          then Returned [''plugins/alpha'', ''plugins/readme.md'']
          else if pattern = ''*'' \<and> cwd = ''/srv/natuna/plugins/alpha''
          then Returned [''server'', ''manifest.ts'']
          else if pattern = ''**/*.ts'' \<and> cwd = ''/srv/natuna/plugins/alpha/server''
          then Returned [''main.ts'']
          else Returned []),
       is_directory = (\<lambda>p.
          Returned (p = ''/srv/natuna/plugins/alpha'' \<or> p = ''/srv/natuna/plugins/alpha/server'')),
       readdir = (\<lambda>p.
          if p = ''/srv/natuna/plugins'' then Returned [''alpha'', ''beta'', ''broken'', ''gamma'', ''idle'']
          else if p = ''/srv/natuna/plugins/alpha'' then Returned [''server'', ''ui'', ''manifest.ts'']
          else Threw (Error ''ENOENT'')),
       require_manifest = (\<lambda>p.
          if p = ''../../plugins/alpha/manifest.ts''
          then Some (manifest_of True [''main.js''] [''main.js'', ''hud.js''])
          else if p = ''../../plugins/idle/manifest.ts''
          then Some (manifest_of False [''main.js''] [''main.js''])
          else None),
       require_json = (\<lambda>p.
          if p = ''../../plugins/beta/manifest.json'' then Some (manifest_of True [''main.js''] [])
          else if p = ''../../plugins/gamma/manifest.json'' then Some (manifest_of True [''main.js''] [])
          else None),
       require_module = (\<lambda>p.
          if p = ''../../plugins/alpha/server/main.js'' then Module (Some (register_own_command ''alpha''))
          else if p = ''../../plugins/gamma/server/main.js'' then Module (Some (register_own_command ''gamma''))
          else RequireThrows (Error ''Cannot find module'')),
       figlet_text = Some ''Natuna Framework'',
       pkg_version = ''1.0.0'',
       fetch_remote_package = Some (JObj [(''version'', JStr ''1.0.1'')]) \<rparr>"

text \<open>The same installation with a \<open>beta\<close> module that loads and starts.\<close>

definition sound_host :: "string host" where
  "sound_host =
     demo_host\<lparr> require_module := (\<lambda>p.
        if p = ''../../plugins/beta/server/main.js'' then Module (Some (register_own_command ''beta''))
        else require_module demo_host p) \<rparr>"

text \<open>The same installation once its plugin folder can no longer be read.\<close>

definition unreadable_host :: "string host" where
  "unreadable_host = demo_host\<lparr> glob := (\<lambda>pattern cwd. Threw (Error ''EACCES'')) \<rparr>"

definition hello_server :: "string server" where
  "hello_server =
     new_server\<lparr>commands := [''hello'' \<mapsto> new_CommandWrapper ''hello'' ''say_hello'' (JObj []) False]\<rparr>"

definition demo_config :: natuna_config where
  "demo_config =
     \<lparr> core_db = JStr ''cassandra'',
       config_plugins = [(''alpha'', JObj [(''server'', JObj [(''greeting'', JStr ''hi'')])])] \<rparr>"

text \<open>What discovery finds in this installation for the server and the client surface.\<close>

definition demo_server_descriptors :: "descriptor list" where
  "demo_server_descriptors =
     [\<lparr>plugin_name = ''alpha'', plugin_file = Some (JStr ''main.js''),
        plugin_config = Some (JObj [(''greeting'', JStr ''hi'')])\<rparr>,
      \<lparr>plugin_name = ''beta'', plugin_file = Some (JStr ''main.js''), plugin_config = Some (JObj [])\<rparr>,
      \<lparr>plugin_name = ''gamma'', plugin_file = Some (JStr ''main.js''), plugin_config = Some (JObj [])\<rparr>]"

definition demo_client_descriptors :: "descriptor list" where
  "demo_client_descriptors =
     [\<lparr>plugin_name = ''alpha'', plugin_file = Some (JStr ''main.js''), plugin_config = Some (JObj [])\<rparr>,
      \<lparr>plugin_name = ''alpha'', plugin_file = Some (JStr ''hud.js''), plugin_config = Some (JObj [])\<rparr>]"

definition demo_manifest_loads :: "effect list" where
  "demo_manifest_loads =
     [Require ''../../plugins/alpha/manifest.ts'',
      Require ''../../plugins/beta/manifest.ts'', Require ''../../plugins/beta/manifest.json'',
      Require ''../../plugins/broken/manifest.ts'', Require ''../../plugins/broken/manifest.json'',
      Require ''../../plugins/gamma/manifest.ts'', Require ''../../plugins/gamma/manifest.json'',
      Require ''../../plugins/idle/manifest.ts'']"

section \<open>Storage driver selection: properties\<close>

lemma js_typeof_not_cassandra: "js_typeof v \<noteq> ''cassandra''"
  by (cases v) simp_all

lemma db_never_Cassandra: "db cfg table \<noteq> Cassandra"
  by (simp add: db_def Let_def js_typeof_not_cassandra)

text \<open>
  C2 (the code departs from the claim). The claim: the driver constructed is the one the
  configuration selects, the Cassandra driver for the \<open>cassandra\<close> backend. The
  \<^verbatim>\<open>switch\<close> tests \<^verbatim>\<open>typeof config.core.db\<close>, which is the name of a type and never
  \<^verbatim>\<open>"cassandra"\<close>: with \<^verbatim>\<open>config.core.db = "cassandra"\<close> the MySQL driver is built.
\<close>

theorem db_cassandra_builds_MySQL:
  "db \<lparr> core_db = JStr ''cassandra'', config_plugins = [] \<rparr> ''users''
     = MySQL (JStr ''cassandra'') ''users''"
  by (simp add: db_def)

section \<open>Command registry: properties\<close>

lemma command_lookup_truthy_update:
  "command_lookup_truthy (s\<lparr>commands := (commands s)(n \<mapsto> w)\<rparr>) a
     = (a = n \<or> command_lookup_truthy s a)"
  by (auto simp: command_lookup_truthy_def)

lemma addCommand_fresh:
  "\<not> command_lookup_truthy s n \<Longrightarrow>
   addCommand handler cfg isClientCommand n s =
     (Returned (),
      s\<lparr>commands := (commands s)(n \<mapsto> new_CommandWrapper n handler cfg isClientCommand)\<rparr>,
      [setCommandDescription n cfg])"
  by (simp add: addCommand_def)

lemma addCommand_known_server:
  "command_lookup_truthy s n \<Longrightarrow>
   addCommand handler cfg False n s = (Threw (Error (duplicate_message n)), s, [])"
  by (simp add: addCommand_def)

lemma addCommand_known_client:
  "command_lookup_truthy s n \<Longrightarrow>
   addCommand handler cfg True n s = (Returned (), s, [setCommandDescription n cfg])"
  by (simp add: addCommand_def)


lemma with_commands_Cons:
  "with_commands handler cfg ic table (a # as) =
     with_commands handler cfg ic (table(a \<mapsto> new_CommandWrapper a handler cfg ic)) as"
  by (simp add: with_commands_def with_command_def)



lemma addCommands_fresh:
  "distinct as \<Longrightarrow> \<forall>a \<in> set as. \<not> command_lookup_truthy s a \<Longrightarrow>
   addCommands handler cfg ic as s =
     (Returned (),
      s\<lparr>commands := with_commands handler cfg ic (commands s) as\<rparr>,
      map (\<lambda>a. setCommandDescription a cfg) as)"
proof (induction as arbitrary: s)
  case Nil
  show ?case by (simp add: with_commands_def)
next
  case (Cons a as)
  let ?s' = "s\<lparr>commands := (commands s)(a \<mapsto> new_CommandWrapper a handler cfg ic)\<rparr>"
  have step: "addCommand handler cfg ic a s = (Returned (), ?s', [setCommandDescription a cfg])"
    using Cons.prems by (simp add: addCommand_fresh)
  have "distinct as" and "\<forall>b \<in> set as. \<not> command_lookup_truthy ?s' b"
    using Cons.prems by (auto simp: command_lookup_truthy_update)
  then have "addCommands handler cfg ic as ?s' =
     (Returned (),
      ?s'\<lparr>commands := with_commands handler cfg ic (commands ?s') as\<rparr>,
      map (\<lambda>a. setCommandDescription a cfg) as)"
    by (rule Cons.IH)
  with step show ?case by (simp add: with_commands_Cons)
qed

lemma hello_registered:
  "commands hello_server ''hello'' = Some (new_CommandWrapper ''hello'' ''say_hello'' (JObj []) False)"
  by (simp add: hello_server_def new_server_def)

text \<open>
  C3 (amended). When the name is already in the command table and \<^verbatim>\<open>isClientCommand\<close> is
  true, the call returns \<^verbatim>\<open>true\<close> without an error and leaves the instance, and so the
  existing entry and its handler, unchanged; the command-description broadcast for the name,
  with the configuration of this call, is still emitted once, because \<^verbatim>\<open>emitNet\<close> stands
  before the test that returns early.
\<close>

theorem registerCommand_known_client_broadcasts:
  "commands s n = Some w \<Longrightarrow>
   registerCommand (Name n) handler cfg True s =
     (Returned True, s, [setCommandDescription n (default_config cfg)])"
  by (simp add: registerCommand_def addCommand_known_client command_lookup_truthy_def)

theorem registerCommand_known_client_broadcasts_witness:
  "registerCommand (Name ''hello'') ''other'' JUndefined True hello_server =
     (Returned True, hello_server,
      [EmitNet ''natuna:client:setCommandDescription'' (- 1) ''hello'' (JObj [])])"
  using registerCommand_known_client_broadcasts [OF hello_registered, of "''other''" JUndefined]
  by (simp add: setCommandDescription_def default_config_def)

text \<open>
  The claim as it was stated (no broadcast is emitted) fails: registering the existing name
  \<open>hello\<close> as a client command emits one broadcast.
\<close>

theorem registerCommand_known_client_counterexample:
  "snd (snd (registerCommand (Name ''hello'') ''other'' (JObj [(''description'', JStr ''Hi'')]) True
       hello_server))
     = [EmitNet ''natuna:client:setCommandDescription'' (- 1) ''hello''
          (JObj [(''description'', JStr ''Hi'')])]
   \<and> snd (snd (registerCommand (Name ''hello'') ''other'' (JObj [(''description'', JStr ''Hi'')]) True
       hello_server)) \<noteq> []"
  by (simp add: registerCommand_def addCommand_def command_lookup_truthy_def hello_server_def
      new_server_def default_config_def setCommandDescription_def)

text \<open>
  C4. When the name is already registered and \<^verbatim>\<open>isClientCommand\<close> is false, the call
  throws the error \<^verbatim>\<open>Command "<name>" had already been registered before!\<close>, emits
  nothing and leaves the instance unchanged, so the entry registered before, with its
  handler, stays in the table.
\<close>

theorem registerCommand_known_server_throws:
  "commands s n = Some w \<Longrightarrow>
   registerCommand (Name n) handler cfg False s = (Threw (Error (duplicate_message n)), s, [])
   \<and> commands (fst (snd (registerCommand (Name n) handler cfg False s))) n = Some w"
  by (simp add: registerCommand_def addCommand_known_server command_lookup_truthy_def)

theorem registerCommand_known_server_throws_witness:
  "registerCommand (Name ''hello'') ''other'' JUndefined False hello_server =
     (Threw (Error ''Command \"hello\" had already been registered before!''), hello_server, [])
   \<and> commands (fst (snd (registerCommand (Name ''hello'') ''other'' JUndefined False hello_server)))
       ''hello'' = Some (new_CommandWrapper ''hello'' ''say_hello'' (JObj []) False)"
  using registerCommand_known_server_throws [OF hello_registered, of "''other''" JUndefined]
  by (simp add: duplicate_message_def hello_registered)

text \<open>
  Registering a list of distinct names, none of which the lookup \<^verbatim>\<open>this.commands[name]\<close>
  finds, adds one entry per name, each with the handler of the call, and emits one broadcast
  per name.
\<close>

lemma registerCommand_fresh_aliases:
  assumes "distinct as" and "\<forall>a \<in> set as. \<not> command_lookup_truthy s a"
  shows "registerCommand (Aliases as) handler cfg ic s =
     (Returned True,
      s\<lparr>commands := with_commands handler (default_config cfg) ic (commands s) as\<rparr>,
      map (\<lambda>a. setCommandDescription a (default_config cfg)) as)"
  using addCommands_fresh [OF assms, of handler "default_config cfg" ic]
  by (simp add: registerCommand_def Let_def)

text \<open>
  C7 (the code departs from the claim). The claim: an array of N distinct fresh names gives N
  entries. A name that no one has registered but that every object inherits from
  \<^verbatim>\<open>Object.prototype\<close>, such as \<open>toString\<close>, is found by the lookup
  \<^verbatim>\<open>this.commands[name]\<close> on the empty table: the call throws the already-registered
  error and no entry is created.
\<close>

theorem registerCommand_toString_on_empty_table:
  "registerCommand (Aliases [''toString'']) handler cfg False new_server =
     (Threw (Error (duplicate_message ''toString'')), new_server, [])"
  by (simp add: registerCommand_def addCommand_def command_lookup_truthy_def Object_prototype_def)




section \<open>Plugin Manifest Discovery: properties\<close>

text \<open>One plugin folder only appends to the list built so far.\<close>

lemma scan_plugin_acc:
  "scan_plugin h cfg t n acc =
     (acc @ plugin_descriptors h cfg t n, snd (scan_plugin h cfg t n []))"
  by (simp add: scan_plugin_def plugin_descriptors_def Let_def
      split: prod.splits option.splits surface.splits result.splits)

lemma scan_plugin_unloadable:
  "\<not> manifest_loads h n \<Longrightarrow> plugin_descriptors h cfg t n = []"
  by (cases "load_manifest h n") (simp add: manifest_loads_def plugin_descriptors_def scan_plugin_def)

lemma scan_plugins_acc:
  "fst (scan_plugins h cfg t ns acc) = acc @ concat (map (plugin_descriptors h cfg t) ns)"
proof (induction ns arbitrary: acc)
  case Nil
  show ?case by simp
next
  case (Cons n ns)
  have "scan_plugin h cfg t n acc = (acc @ plugin_descriptors h cfg t n, snd (scan_plugin h cfg t n []))"
    by (rule scan_plugin_acc)
  then show ?case
    by (simp add: Cons.IH split_beta)
qed

lemma concat_map_filter_nonempty:
  "(\<And>x. x \<in> set xs \<Longrightarrow> \<not> P x \<Longrightarrow> f x = []) \<Longrightarrow>
   concat (map f xs) = concat (map f (filter P xs))"
  by (induction xs) auto

lemma getPlugins_Returned:
  "readdir h (path_join [resource_path h, ''plugins'']) = Returned names \<Longrightarrow>
   fst (getPlugins h cfg t) = Returned (concat (map (plugin_descriptors h cfg t) names))"
  using scan_plugins_acc [of h cfg t names "[]"]
  by (simp add: getPlugins_def split_beta)


lemma demo_readdir:
  "readdir demo_host (path_join [resource_path demo_host, ''plugins'']) =
     Returned [''alpha'', ''beta'', ''broken'', ''gamma'', ''idle'']"
  by (simp add: demo_host_def path_join_def)

lemma demo_getPlugins_Server:
  "getPlugins demo_host demo_config Server = (Returned demo_server_descriptors, demo_manifest_loads)"
  by code_simp

lemma demo_loads:
  "filter (manifest_loads demo_host) [''alpha'', ''beta'', ''broken'', ''gamma'', ''idle''] =
     [''alpha'', ''beta'', ''gamma'', ''idle'']"
  by (simp add: manifest_loads_def load_manifest_def demo_host_def manifest_ts_path_def
      manifest_json_path_def)

text \<open>
  C5. When the plugin folder can be listed, discovery returns a descriptor list and never
  throws because of a manifest: the list is the concatenation, in folder order, of the
  descriptors of exactly those plugins whose manifest loads (as a module or, failing that,
  as a JSON document). A plugin whose manifest does not load contributes no descriptor and
  does not end the scan of the plugins after it.
\<close>

theorem getPlugins_skips_unloadable_manifests:
  assumes "readdir h (path_join [resource_path h, ''plugins'']) = Returned names"
  shows "fst (getPlugins h cfg t) =
           Returned (concat (map (plugin_descriptors h cfg t) (filter (manifest_loads h) names)))
         \<and> (\<forall>n. \<not> manifest_loads h n \<longrightarrow> plugin_descriptors h cfg t n = [])"
proof -
  have "concat (map (plugin_descriptors h cfg t) names) =
        concat (map (plugin_descriptors h cfg t) (filter (manifest_loads h) names))"
    by (rule concat_map_filter_nonempty) (simp add: scan_plugin_unloadable)
  with getPlugins_Returned [OF assms, of cfg t] show ?thesis
    by (simp add: scan_plugin_unloadable)
qed

theorem getPlugins_skips_unloadable_manifests_witness:
  "fst (getPlugins demo_host demo_config Server) =
     Returned (concat (map (plugin_descriptors demo_host demo_config Server)
                 [''alpha'', ''beta'', ''gamma'', ''idle'']))
   \<and> \<not> manifest_loads demo_host ''broken''
   \<and> plugin_descriptors demo_host demo_config Server ''broken'' = []
   \<and> fst (getPlugins demo_host demo_config Server) = Returned demo_server_descriptors"
proof -
  have broken: "\<not> manifest_loads demo_host ''broken''"
    by (simp add: manifest_loads_def load_manifest_def demo_host_def manifest_ts_path_def
        manifest_json_path_def)
  note skip = getPlugins_skips_unloadable_manifests
    [OF demo_readdir, of demo_config Server, unfolded demo_loads]
  have kept: "fst (getPlugins demo_host demo_config Server) =
     Returned (concat (map (plugin_descriptors demo_host demo_config Server)
                 [''alpha'', ''beta'', ''gamma'', ''idle'']))"
    using skip by (rule conjunct1)
  have omitted: "plugin_descriptors demo_host demo_config Server ''broken'' = []"
    using skip broken by blast
  have found: "fst (getPlugins demo_host demo_config Server) = Returned demo_server_descriptors"
    by (simp add: demo_getPlugins_Server)
  from kept broken omitted found show ?thesis
    by (intro conjI)
qed













text \<open>The folder walk loads no module.\<close>

lemma scan_module_types_no_require: "filter is_require (snd (scan_module_types h pluginPath ms)) = []"
  by (induction ms) (auto simp: Let_def split: result.splits prod.splits)

lemma scan_plugin_paths_no_require: "filter is_require (snd (scan_plugin_paths h ps)) = []"
proof (induction ps)
  case Nil
  show ?case by simp
next
  case (Cons a ps)
  have inner: "filter is_require es = []" if "scan_module_types h a ms = (r, es)" for ms r es
    using scan_module_types_no_require [of h a ms] that by simp
  show ?case
    using Cons.IH
    by (auto simp: Let_def inner split: result.splits prod.splits)
qed

lemma scan_plugin_folders_no_require: "filter is_require (snd (scan_plugin_folders h)) = []"
  by (simp add: scan_plugin_folders_def scan_plugin_paths_no_require split: result.splits)

text \<open>A stored list is served as it is; a miss scans and stores.\<close>

lemma getPlugins_enter_hit:
  "plugins s t = Some ds \<Longrightarrow> scan_plugin_folders h = (Returned (), es) \<Longrightarrow>
   getPlugins_enter h t s = (ServedFromCache ds, es)"
  by (simp add: getPlugins_enter_def)

lemma getPlugins_cached_hit:
  "plugins s t = Some ds \<Longrightarrow> scan_plugin_folders h = (Returned (), es) \<Longrightarrow>
   getPlugins_cached h cfg t s = (Returned ds, s, es)"
  by (simp add: getPlugins_cached_def getPlugins_enter_hit)

lemma getPlugins_cached_miss:
  "plugins s t = None \<Longrightarrow> scan_plugin_folders h = (Returned (), es0) \<Longrightarrow>
   getPlugins h cfg t = (Returned ds, es) \<Longrightarrow>
   getPlugins_cached h cfg t s =
     (Returned ds, s\<lparr>plugins := (plugins s)(t \<mapsto> ds)\<rparr>, es0 @ es)"
  by (simp add: getPlugins_cached_def getPlugins_enter_def getPlugins_resume_def)

lemma getPlugins_enter_awaits:
  "fst (getPlugins_enter h t' s) = AwaitsScan \<Longrightarrow> plugins s t' = None"
  by (auto simp: getPlugins_enter_def split: prod.splits result.splits option.splits)

lemma getPlugins_resume_keeps:
  "t' \<noteq> t \<Longrightarrow> plugins (fst (snd (getPlugins_resume h cfg t' s))) t = plugins s t"
  by (auto simp: getPlugins_resume_def split: prod.splits result.splits)

lemma addCommand_plugins: "plugins (fst (snd (addCommand handler cfg ic n s))) = plugins s"
  by (simp add: addCommand_def)

lemma addCommands_plugins: "plugins (fst (snd (addCommands handler cfg ic ns s))) = plugins s"
proof (induction ns arbitrary: s)
  case Nil
  show ?case by simp
next
  case (Cons n ns)
  obtain r s' es where step: "addCommand handler cfg ic n s = (r, s', es)"
    by (cases "addCommand handler cfg ic n s") auto
  have keep: "plugins s' = plugins s"
    using addCommand_plugins [of handler cfg ic n s] step by simp
  show ?case
  proof (cases r)
    case (Threw e)
    with step keep show ?thesis by simp
  next
    case (Returned u)
    obtain r2 s2 es2 where rest: "addCommands handler cfg ic ns s' = (r2, s2, es2)"
      by (cases "addCommands handler cfg ic ns s'") auto
    have "plugins s2 = plugins s'"
      using Cons.IH [of s'] rest by simp
    with step keep Returned rest show ?thesis by simp
  qed
qed

lemma registerCommand_plugins:
  "plugins (fst (snd (registerCommand nm handler cfg ic s))) = plugins s"
proof (cases nm)
  case (Name n)
  obtain r s' es where step: "addCommand handler (default_config cfg) ic n s = (r, s', es)"
    by (cases "addCommand handler (default_config cfg) ic n s") auto
  have "plugins s' = plugins s"
    using addCommand_plugins [of handler "default_config cfg" ic n s] step by simp
  with Name step show ?thesis
    by (cases r) (simp_all add: registerCommand_def)
next
  case (Aliases as)
  obtain r s' es where step: "addCommands handler (default_config cfg) ic as s = (r, s', es)"
    by (cases "addCommands handler (default_config cfg) ic as s") auto
  have "plugins s' = plugins s"
    using addCommands_plugins [of handler "default_config cfg" ic as s] step by simp
  with Aliases step show ?thesis
    by (cases r) (simp_all add: registerCommand_def)
qed

text \<open>
  While a list is stored for a surface and no call for that surface awaits its scan, no event
  changes either fact.
\<close>

lemma occur_keeps:
  assumes "plugins (srv p) t = Some ds" and "t \<notin> set (awaiting p)"
  shows "plugins (srv (occur e p)) t = Some ds \<and> t \<notin> set (awaiting (occur e p))"
proof (cases e)
  case (DiscoveryCalled h t')
  obtain a es where enter: "getPlugins_enter h t' (srv p) = (a, es)"
    by (cases "getPlugins_enter h t' (srv p)") auto
  show ?thesis
  proof (cases a)
    case AwaitsScan
    then have "plugins (srv p) t' = None"
      using getPlugins_enter_awaits [of h t' "srv p"] enter by simp
    with assms(1) have "t' \<noteq> t" by auto
    with DiscoveryCalled enter AwaitsScan assms show ?thesis by simp
  next
    case (Rejects x)
    with DiscoveryCalled enter assms show ?thesis by simp
  next
    case (ServedFromCache x)
    with DiscoveryCalled enter assms show ?thesis by simp
  qed
next
  case (ScanSettles k h cfg)
  show ?thesis
  proof (cases "k < length (awaiting p)")
    case False
    with ScanSettles assms show ?thesis by simp
  next
    case True
    then have "awaiting p ! k \<in> set (awaiting p)" by simp
    with assms(2) have other: "awaiting p ! k \<noteq> t" by auto
    obtain r s' es where resume: "getPlugins_resume h cfg (awaiting p ! k) (srv p) = (r, s', es)"
      by (cases "getPlugins_resume h cfg (awaiting p ! k) (srv p)") auto
    have "plugins s' t = Some ds"
      using getPlugins_resume_keeps [OF other, of h cfg "srv p"] resume assms(1) by simp
    moreover have "t \<notin> set (take k (awaiting p) @ drop (Suc k) (awaiting p))"
      using assms(2) by (auto dest: in_set_takeD in_set_dropD)
    ultimately show ?thesis
      using ScanSettles True resume by simp
  qed
next
  case (CommandRegistered nm handler cfg ic)
  obtain r s' es where reg: "registerCommand nm handler cfg ic (srv p) = (r, s', es)"
    by (cases "registerCommand nm handler cfg ic (srv p)") auto
  have "plugins s' = plugins (srv p)"
    using registerCommand_plugins [of nm handler cfg ic "srv p"] reg by simp
  with CommandRegistered reg assms show ?thesis by simp
qed

lemma run_events_keeps:
  "plugins (srv p) t = Some ds \<Longrightarrow> t \<notin> set (awaiting p) \<Longrightarrow>
   plugins (srv (run_events events p)) t = Some ds"
proof (induction events arbitrary: p)
  case Nil
  then show ?case by simp
next
  case (Cons e events)
  have "plugins (srv (occur e p)) t = Some ds \<and> t \<notin> set (awaiting (occur e p))"
    using Cons.prems by (rule occur_keeps)
  then show ?case
    by (simp add: Cons.IH)
qed

lemma demo_scan: "scan_plugin_folders demo_host = (Returned (), [ConsoleLogList [''main.ts'']])"
  by code_simp

lemma sound_scan: "scan_plugin_folders sound_host = (Returned (), [ConsoleLogList [''main.ts'']])"
  by code_simp

text \<open>
  C9 (amended). A discovery call that finds no list stored for its surface, whose folder walk
  and scan complete, and during which no other call touches the instance, computes the
  descriptor list and stores it under the surface. From then on, as long as no call for that
  surface entered before the store and still awaits its own scan, and whatever discovery calls
  (overlapping or not, for any surface) and command registrations happen in between, in
  whatever environment: a discovery call for the surface whose folder walk completes is served
  at its cache test, returns the stored list and leaves the instance as it is, and its only
  effects are those of the walk, which loads no manifest and no other module.
\<close>

theorem getPlugins_cached_served_from_cache:
  assumes "plugins s t = None" and "scan_plugin_folders h = (Returned (), es0)"
    and "getPlugins h cfg t = (Returned ds, es)"
  shows "getPlugins_cached h cfg t s =
           (Returned ds, s\<lparr>plugins := (plugins s)(t \<mapsto> ds)\<rparr>, es0 @ es)
       \<and> (\<forall>events h' cfg' es'.
            scan_plugin_folders h' = (Returned (), es') \<longrightarrow>
            getPlugins_enter h' t
                (srv (run_events events (idle_process (s\<lparr>plugins := (plugins s)(t \<mapsto> ds)\<rparr>)))) =
              (ServedFromCache ds, es')
            \<and> getPlugins_cached h' cfg' t
                (srv (run_events events (idle_process (s\<lparr>plugins := (plugins s)(t \<mapsto> ds)\<rparr>)))) =
              (Returned ds,
               srv (run_events events (idle_process (s\<lparr>plugins := (plugins s)(t \<mapsto> ds)\<rparr>))),
               es')
            \<and> filter is_require es' = [])"
proof -
  let ?s1 = "s\<lparr>plugins := (plugins s)(t \<mapsto> ds)\<rparr>"
  have first: "getPlugins_cached h cfg t s = (Returned ds, ?s1, es0 @ es)"
    using assms by (rule getPlugins_cached_miss)
  have "plugins (srv (idle_process ?s1)) t = Some ds" and "t \<notin> set (awaiting (idle_process ?s1))"
    by (simp_all add: idle_process_def)
  then have stored: "plugins (srv (run_events events (idle_process ?s1))) t = Some ds" for events
    by (rule run_events_keeps)
  have later: "getPlugins_cached h' cfg' t (srv (run_events events (idle_process ?s1))) =
      (Returned ds, srv (run_events events (idle_process ?s1)), es')"
    if "scan_plugin_folders h' = (Returned (), es')" for events h' cfg' es'
    using stored that by (rule getPlugins_cached_hit)
  have served: "getPlugins_enter h' t (srv (run_events events (idle_process ?s1))) =
      (ServedFromCache ds, es')"
    if "scan_plugin_folders h' = (Returned (), es')" for events and h' :: "'a host" and es'
    using stored that by (rule getPlugins_enter_hit)
  have quiet: "filter is_require es' = []"
    if "scan_plugin_folders h' = (Returned (), es')" for h' :: "'a host" and es'
    using scan_plugin_folders_no_require [of h'] that by simp
  from first served later quiet show ?thesis by blast
qed

theorem getPlugins_cached_served_from_cache_witness:
  "getPlugins_cached demo_host demo_config Server new_server =
     (Returned demo_server_descriptors, new_server\<lparr>plugins := [Server \<mapsto> demo_server_descriptors]\<rparr>,
      [ConsoleLogList [''main.ts'']] @ demo_manifest_loads)
   \<and> getPlugins_cached sound_host demo_config Server
       (srv (run_events
          [CommandRegistered (Name ''hello'') ''say_hello'' JUndefined False,
           DiscoveryCalled sound_host Client, DiscoveryCalled sound_host Client,
           ScanSettles 1 sound_host demo_config, DiscoveryCalled sound_host Server,
           ScanSettles 0 sound_host demo_config]
          (idle_process (new_server\<lparr>plugins := [Server \<mapsto> demo_server_descriptors]\<rparr>)))) =
     (Returned demo_server_descriptors,
      srv (run_events
          [CommandRegistered (Name ''hello'') ''say_hello'' JUndefined False,
           DiscoveryCalled sound_host Client, DiscoveryCalled sound_host Client,
           ScanSettles 1 sound_host demo_config, DiscoveryCalled sound_host Server,
           ScanSettles 0 sound_host demo_config]
          (idle_process (new_server\<lparr>plugins := [Server \<mapsto> demo_server_descriptors]\<rparr>))),
      [ConsoleLogList [''main.ts'']])"
proof -
  have none: "plugins (new_server :: string server) Server = None"
    by (simp add: new_server_def)
  have e: "(plugins (new_server :: string server))(Server \<mapsto> demo_server_descriptors) =
      [Server \<mapsto> demo_server_descriptors]"
    by (simp add: new_server_def)
  note cached = getPlugins_cached_served_from_cache
    [OF none demo_scan demo_getPlugins_Server, unfolded e]
  have first: "getPlugins_cached demo_host demo_config Server new_server =
     (Returned demo_server_descriptors, new_server\<lparr>plugins := [Server \<mapsto> demo_server_descriptors]\<rparr>,
      [ConsoleLogList [''main.ts'']] @ demo_manifest_loads)"
    using cached by (rule conjunct1)
  from cached sound_scan have later: "getPlugins_cached sound_host demo_config Server
       (srv (run_events
          [CommandRegistered (Name ''hello'') ''say_hello'' JUndefined False,
           DiscoveryCalled sound_host Client, DiscoveryCalled sound_host Client,
           ScanSettles 1 sound_host demo_config, DiscoveryCalled sound_host Server,
           ScanSettles 0 sound_host demo_config]
          (idle_process (new_server\<lparr>plugins := [Server \<mapsto> demo_server_descriptors]\<rparr>)))) =
     (Returned demo_server_descriptors,
      srv (run_events
          [CommandRegistered (Name ''hello'') ''say_hello'' JUndefined False,
           DiscoveryCalled sound_host Client, DiscoveryCalled sound_host Client,
           ScanSettles 1 sound_host demo_config, DiscoveryCalled sound_host Server,
           ScanSettles 0 sound_host demo_config]
          (idle_process (new_server\<lparr>plugins := [Server \<mapsto> demo_server_descriptors]\<rparr>))),
      [ConsoleLogList [''main.ts'']])"
    by blast
  from first later show ?thesis
    by (rule conjI)
qed

text \<open>
  The claim as it was stated fails in two ways. Two discovery calls for the client surface in
  the concrete installation, the second entering while the first awaits its scan: both miss
  the cache and both load every manifest. And with the server list stored, a later call in an
  environment whose plugin folder cannot be read is rejected by the folder walk instead of
  returning the stored list.
\<close>

theorem getPlugins_cached_counterexample:
  "returned (run_events
      [DiscoveryCalled demo_host Client, DiscoveryCalled demo_host Client,
       ScanSettles 0 demo_host demo_config, ScanSettles 0 demo_host demo_config]
      (idle_process new_server)) =
     [Returned demo_client_descriptors, Returned demo_client_descriptors]
   \<and> filter is_require (trace (run_events
      [DiscoveryCalled demo_host Client, DiscoveryCalled demo_host Client,
       ScanSettles 0 demo_host demo_config, ScanSettles 0 demo_host demo_config]
      (idle_process new_server))) = demo_manifest_loads @ demo_manifest_loads
   \<and> demo_manifest_loads @ demo_manifest_loads \<noteq> demo_manifest_loads
   \<and> fst (getPlugins_cached unreadable_host demo_config Server
        (new_server\<lparr>plugins := [Server \<mapsto> demo_server_descriptors]\<rparr>)) = Threw (Error ''EACCES'')"
  by code_simp

section \<open>Plugin Initializer: properties\<close>






section \<open>Server lifecycle: properties\<close>






text \<open>The start handler is never settled when the remote package document cannot be had.\<close>

lemma onServerResourceStart_version_check_pending:
  "current_resource_name h = resourceName \<Longrightarrow> fetch_remote_package h = None \<Longrightarrow>
   onServerResourceStart h cfg resourceName s =
     (Pending, s,
      [TriggerServerEvent ''natuna:server:starting'',
       ConsoleLog (case figlet_text h of None \<Rightarrow> ''undefined'' | Some t \<Rightarrow> t),
       Logger ''Welcome! Checking your version...'',
       Logger (''You are currently using version '' @ pkg_version h @ ''.'')])"
  by (simp add: onServerResourceStart_def checkPackageVersion_def)





end
